theory Spec2Isabelle
  imports Complex_Main
begin

section \<open>Data model (types.ts)\<close>

text \<open>
  JavaScript numbers are modelled by their mathematical values: counts (array lengths and
  counters built from them) are \<open>nat\<close>, clock readings of \<open>Date.now()\<close> are \<open>int\<close>
  (milliseconds), confidence scores are \<open>real\<close>. NaN scores and the loss of precision of
  doubles beyond \<open>2^53\<close> are outside the model.
\<close>

record Detection =
  bbox :: "real \<times> real \<times> real \<times> real"
  d_class :: string
  score :: real

record Screenshot =
  shot_id :: string
  shot_url :: string
  shot_timestamp :: string
  shot_count :: nat

datatype log_type = Info | Alert | Success | Warning | Error

record LogEntry =
  log_id :: string
  log_time :: string
  log_message :: string
  log_type :: log_type

record Stats =
  currentCount :: nat
  peakCount :: nat
  avgCount :: nat
  totalDetections :: nat
  sessionStartTime :: "int option"

datatype DetectionSpeed = FAST | NORMAL | ACCURATE

text \<open>An entry of \<open>chartData\<close>: \<open>{ time: string, count: number }\<close>.\<close>

record TrendPoint =
  pt_time :: string
  pt_count :: nat

section \<open>The detection cycle, piece by piece (runDetection)\<close>

text \<open>
  \<open>predictions.filter(p => p.class === 'person' && p.score >= confidence)\<close> and
  \<open>people.length\<close>. The label \<open>'person'\<close> is a constant of the source.
\<close>

definition detection_filter :: "real \<Rightarrow> Detection list \<Rightarrow> Detection list" where
  "detection_filter conf predictions =
     filter (\<lambda>p. d_class p = ''person'' \<and> score p \<ge> conf) predictions"

definition detection_count :: "real \<Rightarrow> Detection list \<Rightarrow> nat" where
  "detection_count conf predictions = length (detection_filter conf predictions)"

text \<open>
  The updater handed to \<open>setStats\<close>: the spread keeps \<open>avgCount\<close> and
  \<open>sessionStartTime\<close>; \<open>Math.max(prev.peakCount, count)\<close>;
  \<open>prev.totalDetections + (count > 0 ? 1 : 0)\<close>.
\<close>

definition update_stats :: "Stats \<Rightarrow> nat \<Rightarrow> Stats" where
  "update_stats prev count =
     prev\<lparr> currentCount := count,
           peakCount := max (peakCount prev) count,
           totalDetections := totalDetections prev + (if count > 0 then 1 else 0) \<rparr>"

text \<open>The initial value of the \<open>stats\<close> state.\<close>

definition initial_stats :: Stats where
  "initial_stats =
     \<lparr> currentCount = 0, peakCount = 0, avgCount = 0, totalDetections = 0,
       sessionStartTime = None \<rparr>"

text \<open>The stats after a sequence of frame counts went through the updater, oldest first.\<close>

definition feed_counts :: "Stats \<Rightarrow> nat list \<Rightarrow> Stats" where
  "feed_counts s counts = foldl update_stats s counts"

text \<open>
  \<open>[...prev, point].slice(-30)\<close>: a negative start counts from the end and is clamped
  at the beginning of the array.
\<close>

definition js_slice_last :: "nat \<Rightarrow> 'a list \<Rightarrow> 'a list" where
  "js_slice_last n xs = drop (length xs - n) xs"

definition chart_append :: "TrendPoint list \<Rightarrow> TrendPoint \<Rightarrow> TrendPoint list" where
  "chart_append prev pt = js_slice_last 30 (prev @ [pt])"

text \<open>\<open>Math.round\<close>: the nearest integer, a tie going up.\<close>

definition js_round :: "real \<Rightarrow> int" where
  "js_round x = \<lfloor>x + 1 / 2\<rfloor>"

section \<open>The alert sound (utils/audio.ts)\<close>

text \<open>
  The module owns \<open>lastAlertTime\<close>, initially 0. \<open>tones\<close> is not a variable of the source:
  it records, oldest first, the clock readings at which the oscillator was started, so that
  the audible effect can be observed in the model.
\<close>

record audio_module =
  lastAlertTime :: int
  tones :: "int list"

definition initial_audio :: audio_module where
  "initial_audio = \<lparr> lastAlertTime = 0, tones = [] \<rparr>"

text \<open>
  \<open>playAlertSound\<close> with the reading of \<open>Date.now()\<close> it takes. \<open>audio_ok = False\<close> stands
  for the audio context failing (its constructor or a node throwing): the exception leaves
  the function after \<open>lastAlertTime\<close> was written. The result pairs the module's state with
  whether an exception was thrown.
\<close>

definition playAlertSound :: "audio_module \<Rightarrow> int \<Rightarrow> bool \<Rightarrow> audio_module \<times> bool" where
  "playAlertSound a now audio_ok =
     (if now - lastAlertTime a < 2000 then (a, False)
      else if audio_ok then (a\<lparr> lastAlertTime := now, tones := tones a @ [now] \<rparr>, False)
      else (a\<lparr> lastAlertTime := now \<rparr>, True))"

section \<open>Application state (the App component)\<close>

datatype tab = StatsTab | LogsTab | GalleryTab

text \<open>What the video element plays: nothing, the camera stream, or an uploaded file.\<close>

datatype video_source = NoSource | CameraStream | FileUrl string

text \<open>The handler stored in \<open>video.onloadedmetadata\<close>: the webcam's or the upload's.\<close>

datatype loaded_callback = WebcamLoaded | UploadLoaded string

datatype recorder_state = RecorderRecording | RecorderInactive

text \<open>
  The \<open>useState\<close> cells, the refs and the audio module. \<open>model_loaded\<close> is
  \<open>model !== null\<close>; \<open>video_mounted\<close> and \<open>canvas_mounted\<close> are \<open>videoRef.current\<close> and
  \<open>canvasRef.current\<close> being set; \<open>overlay\<close> is what \<open>renderDetections\<close> last drew on the
  canvas. State setters are applied in program order. The timers that schedule the next
  cycle are not state here: a cycle is an event of the model.
\<close>

record app_state =
  model_loaded :: bool
  isSystemReady :: bool
  isMonitoring :: bool
  isRecording :: bool
  activeTab :: tab
  stats :: Stats
  chartData :: "TrendPoint list"
  logs :: "LogEntry list"
  screenshots :: "Screenshot list"
  sessionDuration :: string
  fps :: int
  threshold :: nat
  confidence :: real
  detectionSpeed :: DetectionSpeed
  soundEnabled :: bool
  video_mounted :: bool
  canvas_mounted :: bool
  video_src :: video_source
  video_playing :: bool
  onloadedmetadata :: "loaded_callback option"
  overlay :: "Detection list"
  mediaRecorder :: "recorder_state option"
  frameCount :: nat
  lastFpsTime :: int
  history :: "nat list"
  audio :: audio_module

text \<open>
  The state after the first render and mount; \<open>mount_time\<close> is the \<open>Date.now()\<close> that
  initialises \<open>lastFpsTimeRef\<close>.
\<close>

definition initial_state :: "int \<Rightarrow> app_state" where
  "initial_state mount_time =
     \<lparr> model_loaded = False, isSystemReady = False, isMonitoring = False,
       isRecording = False, activeTab = StatsTab, stats = initial_stats, chartData = [],
       logs = [], screenshots = [], sessionDuration = ''00:00'', fps = 0, threshold = 3,
       confidence = 1 / 2, detectionSpeed = NORMAL, soundEnabled = True,
       video_mounted = True, canvas_mounted = True, video_src = NoSource,
       video_playing = False, onloadedmetadata = None, overlay = [],
       mediaRecorder = None, frameCount = 0, lastFpsTime = mount_time, history = [],
       audio = initial_audio \<rparr>"

text \<open>
  \<open>addLog\<close>: \<open>[entry, ...prev].slice(0, 100)\<close>. \<open>rid\<close> is the random id and \<open>tm\<close> the
  \<open>toLocaleTimeString()\<close> of the call.
\<close>

definition log_insert :: "LogEntry \<Rightarrow> LogEntry list \<Rightarrow> LogEntry list" where
  "log_insert entry prev = take 100 (entry # prev)"

definition addLog :: "string \<Rightarrow> string \<Rightarrow> string \<Rightarrow> log_type \<Rightarrow> app_state \<Rightarrow> app_state" where
  "addLog rid tm msg ty s =
     s\<lparr> logs := log_insert \<lparr> log_id = rid, log_time = tm, log_message = msg, log_type = ty \<rparr>
                     (logs s) \<rparr>"

text \<open>
  What one run of \<open>runDetection\<close> reads from outside: whether the video's \<open>readyState\<close>
  is 4, what \<open>model.detect\<close> resolves to (\<open>None\<close> when it rejects), whether a 2d context is
  available, the clock inside \<open>playAlertSound\<close> and whether the audio works, the clock of
  the FPS step and the label \<open>toLocaleTimeString\<close> gives the chart point.
\<close>

record cycle_env =
  video_ready :: bool
  detect_result :: "Detection list option"
  ctx_ok :: bool
  alert_clock :: int
  audio_ok :: bool
  fps_clock :: int
  chart_label :: string

text \<open>\<open>renderDetections\<close>: returns early without canvas, video or context.\<close>

definition renderDetections :: "bool \<Rightarrow> Detection list \<Rightarrow> app_state \<Rightarrow> app_state" where
  "renderDetections ctx detections s =
     (if \<not> canvas_mounted s \<or> \<not> video_mounted s then s
      else if \<not> ctx then s
      else s\<lparr> overlay := detections \<rparr>)"

text \<open>
  \<open>if (soundEnabled && count >= threshold) playAlertSound()\<close>; the boolean tells whether
  the call threw.
\<close>

definition sound_alert :: "nat \<Rightarrow> cycle_env \<Rightarrow> app_state \<Rightarrow> app_state \<times> bool" where
  "sound_alert count env s =
     (if soundEnabled s \<and> count \<ge> threshold s
      then (case playAlertSound (audio s) (alert_clock env) (audio_ok env) of
              (a, threw) \<Rightarrow> (s\<lparr> audio := a \<rparr>, threw))
      else (s, False))"

text \<open>The FPS calculation and the push to the chart (lines 179 to 192).\<close>

definition fps_step :: "nat \<Rightarrow> cycle_env \<Rightarrow> app_state \<Rightarrow> app_state" where
  "fps_step count env s =
     (let frames = frameCount s + 1;
          now = fps_clock env;
          delta = now - lastFpsTime s
      in if delta \<ge> 1000
         then s\<lparr> fps := js_round (real (frames * 1000) / real_of_int delta),
                 frameCount := 0,
                 lastFpsTime := now,
                 chartData := chart_append (chartData s)
                                \<lparr> pt_time = chart_label env, pt_count = count \<rparr> \<rparr>
         else s\<lparr> frameCount := frames \<rparr>)"

text \<open>
  The body of the \<open>try\<close> once \<open>model.detect\<close> has resolved. An exception of the alert
  sound is caught by the \<open>catch\<close> of the cycle, which skips the FPS step.
\<close>

definition cycle_body :: "Detection list \<Rightarrow> cycle_env \<Rightarrow> app_state \<Rightarrow> app_state" where
  "cycle_body predictions env s =
     (let people = detection_filter (confidence s) predictions;
          count = length people;
          s1 = s\<lparr> stats := update_stats (stats s) count \<rparr>;
          s2 = s1\<lparr> history := history s1 @ [count] \<rparr>;
          s3 = renderDetections (ctx_ok env) people s2
      in case sound_alert count env s3 of
           (s4, threw) \<Rightarrow> if threw then s4 else fps_step count env s4)"

text \<open>
  \<open>runDetection\<close>. What the callback closes over (\<open>model\<close>, \<open>isMonitoring\<close>,
  \<open>confidence\<close>, \<open>threshold\<close>, \<open>soundEnabled\<close>) is read from the current state. A
  rejected \<open>model.detect\<close> is caught and the cycle skipped.
\<close>

definition runDetection :: "cycle_env \<Rightarrow> app_state \<Rightarrow> app_state" where
  "runDetection env s =
     (if \<not> model_loaded s \<or> \<not> isMonitoring s \<or> \<not> video_mounted s then s
      else if \<not> video_ready env then s
      else (case detect_result env of
              None \<Rightarrow> s
            | Some predictions \<Rightarrow> cycle_body predictions env s))"

text \<open>The delay before the next cycle is requested.\<close>

definition cycle_delay :: "DetectionSpeed \<Rightarrow> nat" where
  "cycle_delay speed = (if speed = FAST then 30 else if speed = NORMAL then 100 else 250)"

section \<open>Session handlers\<close>

text \<open>The effect that loads the model: success and failure of \<open>cocoSsd.load()\<close>.\<close>

definition loadModel :: "bool \<Rightarrow> string \<Rightarrow> string \<Rightarrow> app_state \<Rightarrow> app_state" where
  "loadModel ok rid tm s =
     (if ok
      then addLog rid tm ''Neural network initialized and ready.'' Success
             (s\<lparr> model_loaded := True, isSystemReady := True \<rparr>)
      else addLog rid tm ''Failed to initialize detection engine.'' Error s)"

text \<open>
  \<open>handleStartWebcam\<close>: \<open>granted = False\<close> is \<open>getUserMedia\<close> rejecting. The monitoring
  itself starts in the handler left in \<open>onloadedmetadata\<close>.
\<close>

definition handleStartWebcam :: "bool \<Rightarrow> string \<Rightarrow> string \<Rightarrow> app_state \<Rightarrow> app_state" where
  "handleStartWebcam granted rid tm s =
     (if \<not> granted then addLog rid tm ''Failed to access camera. Check permissions.'' Error s
      else if video_mounted s
      then s\<lparr> video_src := CameraStream, onloadedmetadata := Some WebcamLoaded \<rparr>
      else s)"

text \<open>\<open>handleUpload\<close>: the chosen file, if any, as its name and its object URL.\<close>

definition handleUpload :: "(string \<times> string) option \<Rightarrow> app_state \<Rightarrow> app_state" where
  "handleUpload file s =
     (case file of
        None \<Rightarrow> s
      | Some (name, url) \<Rightarrow>
          if video_mounted s
          then s\<lparr> video_src := FileUrl url, onloadedmetadata := Some (UploadLoaded name) \<rparr>
          else s)"

text \<open>
  The video element firing \<open>loadedmetadata\<close>: the stored handler plays the video, sets
  \<open>isMonitoring\<close>, stamps \<open>sessionStartTime\<close> with \<open>Date.now()\<close> and logs.
\<close>

definition loaded_message :: "loaded_callback \<Rightarrow> string \<times> log_type" where
  "loaded_message cb =
     (case cb of
        WebcamLoaded \<Rightarrow> (''Live monitoring started via webcam.'', Success)
      | UploadLoaded name \<Rightarrow> (''Processing video file: '' @ name, Info))"

definition fire_loadedmetadata :: "int \<Rightarrow> string \<Rightarrow> string \<Rightarrow> app_state \<Rightarrow> app_state" where
  "fire_loadedmetadata now rid tm s =
     (case onloadedmetadata s of
        None \<Rightarrow> s
      | Some cb \<Rightarrow>
          let s1 = (if video_mounted s then s\<lparr> video_playing := True \<rparr> else s);
              s2 = s1\<lparr> isMonitoring := True \<rparr>;
              s3 = s2\<lparr> stats := (stats s2)\<lparr> sessionStartTime := Some now \<rparr> \<rparr>
          in addLog rid tm (fst (loaded_message cb)) (snd (loaded_message cb)) s3)"

text \<open>\<open>handleStop\<close>. It has no guard: every call runs all of it.\<close>

definition handleStop :: "string \<Rightarrow> string \<Rightarrow> app_state \<Rightarrow> app_state" where
  "handleStop rid tm s =
     (let s1 = s\<lparr> isMonitoring := False \<rparr>;
          s2 = s1\<lparr> isRecording := False \<rparr>;
          s3 = (if video_mounted s2
                then s2\<lparr> video_playing := False, video_src := NoSource \<rparr> else s2);
          s4 = s3\<lparr> sessionDuration := ''00:00'' \<rparr>
      in addLog rid tm ''Monitoring halted.'' Warning s4)"

text \<open>
  \<open>takeScreenshot\<close>: \<open>ctx\<close> is whether the fresh canvas gives a 2d context, \<open>url\<close> the data
  URL; the screenshot and the log entry draw their own ids and times.
\<close>

definition takeScreenshot ::
  "bool \<Rightarrow> string \<Rightarrow> string \<Rightarrow> string \<Rightarrow> string \<Rightarrow> string \<Rightarrow> app_state \<Rightarrow> app_state" where
  "takeScreenshot ctx url sid stm rid tm s =
     (if \<not> video_mounted s \<or> \<not> canvas_mounted s then s
      else if \<not> ctx then s
      else addLog rid tm ''Manual screenshot captured.'' Success
             (s\<lparr> screenshots :=
                   \<lparr> shot_id = sid, shot_url = url, shot_timestamp = stm,
                     shot_count = currentCount (stats s) \<rparr> # screenshots s \<rparr>))"

text \<open>
  \<open>toggleRecording\<close>. \<open>supported = False\<close> is the \<open>MediaRecorder\<close> constructor throwing,
  which leaves the handler before it changed anything. The recorded chunks and the drawing
  loop of the recorder are not modelled.
\<close>

definition toggleRecording :: "bool \<Rightarrow> string \<Rightarrow> string \<Rightarrow> app_state \<Rightarrow> app_state" where
  "toggleRecording supported rid tm s =
     (if isRecording s
      then addLog rid tm ''Recording saved.'' Success
             (s\<lparr> mediaRecorder := map_option (\<lambda>r. RecorderInactive) (mediaRecorder s),
                  isRecording := False \<rparr>)
      else if \<not> video_mounted s \<or> \<not> canvas_mounted s then s
      else if \<not> supported then s
      else (addLog rid tm ''Video recording started.'' Info
              (s\<lparr> isRecording := True \<rparr>))\<lparr> mediaRecorder := Some RecorderRecording \<rparr>)"

subsection \<open>The session timer\<close>

text \<open>\<open>String(n)\<close> for an integer and \<open>padStart(2, '0')\<close>.\<close>

fun string_of_nat :: "nat \<Rightarrow> string" where
  "string_of_nat n =
     (if n < 10 then [''0123456789'' ! n]
      else string_of_nat (n div 10) @ [''0123456789'' ! (n mod 10)])"

definition js_string_of_int :: "int \<Rightarrow> string" where
  "js_string_of_int i = (if i < 0 then CHR ''-'' # string_of_nat (nat (- i)) else string_of_nat (nat i))"

definition padStart2 :: "string \<Rightarrow> string" where
  "padStart2 str = replicate (2 - length str) CHR ''0'' @ str"

text \<open>The remainder \<open>%\<close> of JavaScript takes the sign of the dividend.\<close>

definition js_rem :: "int \<Rightarrow> int \<Rightarrow> int" where
  "js_rem a b = (if a < 0 then - ((- a) mod \<bar>b\<bar>) else a mod \<bar>b\<bar>)"

text \<open>
  One tick of the interval, which exists while \<open>isMonitoring && stats.sessionStartTime\<close>
  holds (a start time of 0 is falsy).
\<close>

definition timer_tick :: "int \<Rightarrow> app_state \<Rightarrow> app_state" where
  "timer_tick now s =
     (case sessionStartTime (stats s) of
        None \<Rightarrow> s
      | Some t0 \<Rightarrow>
          if \<not> isMonitoring s \<or> t0 = 0 then s
          else let seconds = (now - t0) div 1000;
                   mm = padStart2 (js_string_of_int (seconds div 60));
                   ss = padStart2 (js_string_of_int (js_rem seconds 60))
               in s\<lparr> sessionDuration := mm @ '':'' @ ss \<rparr>)"

section \<open>Events\<close>

text \<open>Everything that can change the state, with what each handler reads from outside.\<close>

datatype event =
    ModelLoad bool string string
  | StartWebcam bool string string
  | Upload "(string \<times> string) option"
  | LoadedMetadata int string string
  | Stop string string
  | TakeScreenshot bool string string string string string
  | ToggleRecording bool string string
  | Cycle cycle_env
  | TimerTick int
  | SetThreshold nat
  | SetConfidence real
  | SetDetectionSpeed DetectionSpeed
  | ToggleSound
  | SetActiveTab tab

text \<open>The handler of each event, called whatever the state is.\<close>

fun handle :: "app_state \<Rightarrow> event \<Rightarrow> app_state" where
  "handle s (ModelLoad ok rid tm) = loadModel ok rid tm s"
| "handle s (StartWebcam granted rid tm) = handleStartWebcam granted rid tm s"
| "handle s (Upload file) = handleUpload file s"
| "handle s (LoadedMetadata now rid tm) = fire_loadedmetadata now rid tm s"
| "handle s (Stop rid tm) = handleStop rid tm s"
| "handle s (TakeScreenshot ctx url sid stm rid tm) = takeScreenshot ctx url sid stm rid tm s"
| "handle s (ToggleRecording supported rid tm) = toggleRecording supported rid tm s"
| "handle s (Cycle env) = runDetection env s"
| "handle s (TimerTick now) = timer_tick now s"
| "handle s (SetThreshold n) = s\<lparr> threshold := n \<rparr>"
| "handle s (SetConfidence c) = s\<lparr> confidence := c \<rparr>"
| "handle s (SetDetectionSpeed sp) = s\<lparr> detectionSpeed := sp \<rparr>"
| "handle s ToggleSound = s\<lparr> soundEnabled := \<not> soundEnabled s \<rparr>"
| "handle s (SetActiveTab t) = s\<lparr> activeTab := t \<rparr>"

text \<open>
  The \<open>disabled\<close> attributes of the buttons: Start Webcam is
  \<open>disabled={isMonitoring || !isSystemReady}\<close>; Stop Feed, Capture Frame and the recording
  button are \<open>disabled={!isMonitoring}\<close>. A disabled button delivers no click.
\<close>

fun button_disabled :: "app_state \<Rightarrow> event \<Rightarrow> bool" where
  "button_disabled s (StartWebcam granted rid tm) = (isMonitoring s \<or> \<not> isSystemReady s)"
| "button_disabled s (Stop rid tm) = (\<not> isMonitoring s)"
| "button_disabled s (TakeScreenshot ctx url sid stm rid tm) = (\<not> isMonitoring s)"
| "button_disabled s (ToggleRecording supported rid tm) = (\<not> isMonitoring s)"
| "button_disabled s ev = False"

text \<open>An event as the page delivers it, and a sequence of them.\<close>

definition ui_step :: "app_state \<Rightarrow> event \<Rightarrow> app_state" where
  "ui_step s ev = (if button_disabled s ev then s else handle s ev)"

definition ui_run :: "app_state \<Rightarrow> event list \<Rightarrow> app_state" where
  "ui_run s evs = foldl ui_step s evs"

definition handle_all :: "app_state \<Rightarrow> event list \<Rightarrow> app_state" where
  "handle_all s evs = foldl handle s evs"


declare string_of_nat.simps [simp del]

section \<open>Runs used by the properties\<close>

text \<open>The trend buffer after a sequence of points went through the chart updater.\<close>

definition chart_feed :: "TrendPoint list \<Rightarrow> TrendPoint list \<Rightarrow> TrendPoint list" where
  "chart_feed buf pts = foldl chart_append buf pts"

text \<open>The log after a sequence of entries went through \<open>setLogs\<close>, oldest entry first.\<close>

definition log_feed :: "LogEntry list \<Rightarrow> LogEntry list \<Rightarrow> LogEntry list" where
  "log_feed prev entries = foldl (\<lambda>l e. log_insert e l) prev entries"

text \<open>
  An environment in which the video is ready, the model reports \<open>n\<close> persons with score 1,
  the audio works and every clock reads \<open>t\<close>.
\<close>

definition persons :: "nat \<Rightarrow> Detection list" where
  "persons n = replicate n \<lparr> bbox = (0, 0, 0, 0), d_class = ''person'', score = 1 \<rparr>"

definition env_at :: "int \<Rightarrow> string \<Rightarrow> nat \<Rightarrow> cycle_env" where
  "env_at t label n =
     \<lparr> video_ready = True, detect_result = Some (persons n), ctx_ok = True,
       alert_clock = t, audio_ok = True, fps_clock = t, chart_label = label \<rparr>"

text \<open>FPS steps one second apart, the first at \<open>t\<close>, each with its label and count.\<close>

fun second_apart_samples :: "app_state \<Rightarrow> int \<Rightarrow> (string \<times> nat) list \<Rightarrow> app_state" where
  "second_apart_samples s t [] = s"
| "second_apart_samples s t ((label, n) # rest) =
     second_apart_samples (fps_step n (env_at t label n) s) (t + 1000) rest"


text \<open>
  A fresh page at clock \<open>t\<close> on which the model has loaded and the webcam has started; the
  threshold is the default 3 and the sound is enabled.
\<close>

definition monitoring_from :: "int \<Rightarrow> app_state" where
  "monitoring_from t =
     handle_all (initial_state t)
       [ModelLoad True ''a'' ''t0'', StartWebcam True ''b'' ''t1'', LoadedMetadata t ''c'' ''t2'']"

text \<open>
  The condition under which the alert of a cycle passes the cooldown, and the one under
  which a cycle gets as far as its FPS step: the guards pass, \<open>model.detect\<close> resolves and
  the alert sound does not throw.
\<close>

definition alert_gate :: "nat \<Rightarrow> cycle_env \<Rightarrow> app_state \<Rightarrow> bool" where
  "alert_gate count env s =
     (soundEnabled s \<and> count \<ge> threshold s \<and> alert_clock env - lastAlertTime (audio s) \<ge> 2000)"


section \<open>Stats aggregator\<close>

lemma feed_counts_Nil: "feed_counts s [] = s"
  by (simp add: feed_counts_def)

lemma feed_counts_snoc: "feed_counts s (cs @ [c]) = update_stats (feed_counts s cs) c"
  by (simp add: feed_counts_def)

lemma peak_feed_counts: "peakCount (feed_counts s cs) = fold max cs (peakCount s)"
proof (induction cs rule: rev_induct)
  case Nil
  show ?case by (simp add: feed_counts_Nil)
next
  case (snoc c cs)
  then show ?case
    by (simp add: feed_counts_snoc update_stats_def max.commute)
qed

lemma peak_feed_counts_Max: "peakCount (feed_counts s cs) = Max (set (peakCount s # cs))"
  by (simp only: peak_feed_counts Max.set_eq_fold)

lemma Max_with_zero: "cs \<noteq> [] \<Longrightarrow> Max (set ((0::nat) # cs)) = Max (set cs)"
  by (simp add: max_def)

lemma total_feed_counts:
  "totalDetections (feed_counts s cs) = totalDetections s + length (filter (\<lambda>c. c > 0) cs)"
proof (induction cs rule: rev_induct)
  case Nil
  show ?case by (simp add: feed_counts_Nil)
next
  case (snoc c cs)
  then show ?case
    by (simp add: feed_counts_snoc update_stats_def)
qed

lemma stats_renderDetections: "stats (renderDetections ctx ds s) = stats s"
  by (simp add: renderDetections_def)

lemma stats_sound_alert: "stats (fst (sound_alert count env s)) = stats s"
  by (simp add: sound_alert_def split: prod.split)

lemma stats_fps_step: "stats (fps_step count env s) = stats s"
  by (simp add: fps_step_def Let_def)

lemma stats_cycle_body:
  "stats (cycle_body predictions env s) =
     update_stats (stats s) (detection_count (confidence s) predictions)"
proof -
  let ?people = "detection_filter (confidence s) predictions"
  let ?s3 = "renderDetections (ctx_ok env) ?people
               (s\<lparr> stats := update_stats (stats s) (length ?people),
                    history := history s @ [length ?people] \<rparr>)"
  have "stats (cycle_body predictions env s) =
          (if snd (sound_alert (length ?people) env ?s3)
           then stats (fst (sound_alert (length ?people) env ?s3))
           else stats (fps_step (length ?people) env (fst (sound_alert (length ?people) env ?s3))))"
    by (simp add: cycle_body_def Let_def split: prod.split)
  also have "\<dots> = stats ?s3"
    by (simp add: stats_fps_step stats_sound_alert)
  also have "\<dots> = update_stats (stats s) (length ?people)"
    by (simp add: stats_renderDetections)
  finally show ?thesis by (simp add: detection_count_def)
qed

section \<open>Bounded buffers\<close>

lemma js_slice_last_length: "length (js_slice_last n xs) = min n (length xs)"
  by (simp add: js_slice_last_def)

lemma chart_append_length: "length (chart_append buf pt) = min 30 (Suc (length buf))"
  by (simp add: chart_append_def js_slice_last_length)

lemma chart_feed_Nil: "chart_feed buf [] = buf"
  by (simp add: chart_feed_def)

lemma chart_feed_snoc: "chart_feed buf (pts @ [pt]) = chart_append (chart_feed buf pts) pt"
  by (simp add: chart_feed_def)

lemma chart_feed_Cons: "chart_feed buf (pt # pts) = chart_feed (chart_append buf pt) pts"
  by (simp add: chart_feed_def)

lemma chart_feed_last: "chart_feed [] pts = js_slice_last 30 pts"
proof (induction pts rule: rev_induct)
  case Nil
  show ?case by (simp add: chart_feed_Nil js_slice_last_def)
next
  case (snoc pt pts)
  have "length pts - (length pts - 30 + 29) + (length pts - 30) = length pts - 29"
    by arith
  then show ?case
    by (simp add: chart_feed_snoc snoc chart_append_def js_slice_last_def)
qed

lemma log_feed_Nil: "log_feed prev [] = prev"
  by (simp add: log_feed_def)

lemma log_feed_snoc: "log_feed prev (es @ [e]) = log_insert e (log_feed prev es)"
  by (simp add: log_feed_def)

lemma log_feed_newest_first: "log_feed [] es = take 100 (rev es)"
proof (induction es rule: rev_induct)
  case Nil
  show ?case by (simp add: log_feed_Nil)
next
  case (snoc e es)
  have "take 100 (e # take 100 (rev es)) = take 100 (e # rev es)"
    by (simp add: take_Cons')
  with snoc show ?case
    by (simp add: log_feed_snoc log_insert_def)
qed

section \<open>What each handler leaves alone\<close>

lemmas handler_defs =
  loadModel_def handleStartWebcam_def handleUpload_def fire_loadedmetadata_def
  handleStop_def takeScreenshot_def toggleRecording_def timer_tick_def addLog_def

lemma sound_alert_state:
  "fst (sound_alert c env s) =
     s\<lparr> audio := (if soundEnabled s \<and> threshold s \<le> c
                   then fst (playAlertSound (audio s) (alert_clock env) (audio_ok env))
                   else audio s) \<rparr>"
  by (simp add: sound_alert_def split: prod.split)


lemma renderDetections_state:
  "renderDetections ctx ds s =
     s\<lparr> overlay := (if canvas_mounted s \<and> video_mounted s \<and> ctx then ds else overlay s) \<rparr>"
  by (simp add: renderDetections_def)

lemma cycle_body_eq:
  "cycle_body ps env s =
     (let c = detection_count (confidence s) ps;
          s3 = renderDetections (ctx_ok env) (detection_filter (confidence s) ps)
                 (s\<lparr> stats := update_stats (stats s) c, history := history s @ [c] \<rparr>)
      in if snd (sound_alert c env s3) then fst (sound_alert c env s3)
         else fps_step c env (fst (sound_alert c env s3)))"
  by (simp add: cycle_body_def detection_count_def Let_def split: prod.split)

lemma chartData_cycle_body:
  "length (chartData s) \<le> 30 \<Longrightarrow> length (chartData (cycle_body ps env s)) \<le> 30"
  by (simp add: cycle_body_eq Let_def sound_alert_state renderDetections_state fps_step_def
      chart_append_length)

lemma chartData_handle:
  "length (chartData s) \<le> 30 \<Longrightarrow> length (chartData (handle s ev)) \<le> 30"
proof (cases ev)
  case (Cycle env)
  assume "length (chartData s) \<le> 30"
  then show ?thesis
    by (simp add: Cycle runDetection_def chartData_cycle_body split: option.split)
qed (simp_all add: handler_defs Let_def split: option.split prod.split)

lemma chartData_handle_all:
  "length (chartData s) \<le> 30 \<Longrightarrow> length (chartData (handle_all s evs)) \<le> 30"
proof (induction evs rule: rev_induct)
  case Nil
  then show ?case by (simp add: handle_all_def)
next
  case (snoc ev evs)
  then show ?case by (simp add: handle_all_def chartData_handle)
qed

lemma log_insert_length: "length (log_insert e prev) = min 100 (Suc (length prev))"
  by (simp add: log_insert_def)

lemma logs_cycle_body: "logs (cycle_body ps env s) = logs s"
  by (simp add: cycle_body_eq Let_def sound_alert_state renderDetections_state fps_step_def)

lemma logs_handle:
  "length (logs s) \<le> 100 \<Longrightarrow> length (logs (handle s ev)) \<le> 100"
proof (cases ev)
  case (Cycle env)
  assume "length (logs s) \<le> 100"
  then show ?thesis
    by (simp add: Cycle runDetection_def logs_cycle_body split: option.split)
qed (simp_all add: handler_defs Let_def log_insert_length split: option.split prod.split)

lemma logs_handle_all:
  "length (logs s) \<le> 100 \<Longrightarrow> length (logs (handle_all s evs)) \<le> 100"
proof (induction evs rule: rev_induct)
  case Nil
  then show ?case by (simp add: handle_all_def)
next
  case (snoc ev evs)
  then show ?case by (simp add: handle_all_def logs_handle)
qed

lemma avgCount_update_stats: "avgCount (update_stats st c) = avgCount st"
  by (simp add: update_stats_def)

lemma avgCount_handle: "avgCount (stats (handle s ev)) = avgCount (stats s)"
proof (cases ev)
  case (Cycle env)
  show ?thesis
    by (simp add: Cycle runDetection_def stats_cycle_body avgCount_update_stats
        split: option.split)
qed (simp_all add: handler_defs Let_def split: option.split prod.split)

lemma avgCount_handle_all: "avgCount (stats (handle_all s evs)) = avgCount (stats s)"
proof (induction evs rule: rev_induct)
  case Nil
  show ?case by (simp add: handle_all_def)
next
  case (snoc ev evs)
  then show ?case by (simp add: handle_all_def avgCount_handle)
qed

lemma avgCount_ui_step: "avgCount (stats (ui_step s ev)) = avgCount (stats s)"
  by (simp add: ui_step_def avgCount_handle)

lemma avgCount_ui_run: "avgCount (stats (ui_run s evs)) = avgCount (stats s)"
proof (induction evs rule: rev_induct)
  case Nil
  show ?case by (simp add: ui_run_def)
next
  case (snoc ev evs)
  then show ?case by (simp add: ui_run_def avgCount_ui_step)
qed

lemma second_apart_samples_chart:
  "lastFpsTime s + 1000 \<le> t \<Longrightarrow>
   chartData (second_apart_samples s t samples) =
     chart_feed (chartData s) (map (\<lambda>(label, n). \<lparr> pt_time = label, pt_count = n \<rparr>) samples)"
proof (induction samples arbitrary: s t)
  case Nil
  show ?case by (simp add: chart_feed_Nil)
next
  case (Cons a samples)
  obtain label n where a: "a = (label, n)" by (cases a)
  let ?s' = "fps_step n (env_at t label n) s"
  from Cons.prems have step: "lastFpsTime ?s' = t"
    and chart: "chartData ?s' = chart_append (chartData s) \<lparr> pt_time = label, pt_count = n \<rparr>"
    by (simp_all add: fps_step_def env_at_def Let_def)
  have "chartData (second_apart_samples ?s' (t + 1000) samples) =
          chart_feed (chartData ?s')
            (map (\<lambda>(label, n). \<lparr> pt_time = label, pt_count = n \<rparr>) samples)"
    by (rule Cons.IH) (simp add: step)
  then show ?case
    by (simp add: a chart chart_feed_Cons)
qed

section \<open>The detection cycle\<close>




lemma detection_count_persons: "conf \<le> 1 \<Longrightarrow> detection_count conf (persons n) = n"
  by (simp add: detection_count_def detection_filter_def persons_def)

lemma monitoring_from_flags:
  "model_loaded (monitoring_from t)" "isMonitoring (monitoring_from t)"
  "video_mounted (monitoring_from t)" "soundEnabled (monitoring_from t)"
  "canvas_mounted (monitoring_from t)" "\<not> isRecording (monitoring_from t)"
  by (simp_all add: monitoring_from_def handle_all_def handler_defs initial_state_def
      Let_def loaded_message_def)

lemma monitoring_from_fields:
  "threshold (monitoring_from t) = 3" "confidence (monitoring_from t) = 1 / 2"
  "audio (monitoring_from t) = initial_audio" "frameCount (monitoring_from t) = 0"
  "lastFpsTime (monitoring_from t) = t" "chartData (monitoring_from t) = []"
  "fps (monitoring_from t) = 0"
  "stats (monitoring_from t) = initial_stats\<lparr> sessionStartTime := Some t \<rparr>"
  by (simp_all add: monitoring_from_def handle_all_def handler_defs initial_state_def
      Let_def loaded_message_def)

lemma env_at_fields:
  "video_ready (env_at t l n)" "detect_result (env_at t l n) = Some (persons n)"
  "ctx_ok (env_at t l n)" "alert_clock (env_at t l n) = t" "audio_ok (env_at t l n)"
  "fps_clock (env_at t l n) = t" "chart_label (env_at t l n) = l"
  by (simp_all add: env_at_def)


section \<open>The alert\<close>

lemma audio_sound_alert:
  "audio (fst (sound_alert c env s)) =
     (if alert_gate c env s
      then if audio_ok env
           then (audio s)\<lparr> lastAlertTime := alert_clock env,
                          tones := tones (audio s) @ [alert_clock env] \<rparr>
           else (audio s)\<lparr> lastAlertTime := alert_clock env \<rparr>
      else audio s)"
  by (simp add: sound_alert_state playAlertSound_def alert_gate_def)

lemma audio_fps_step: "audio (fps_step c env s) = audio s"
  by (simp add: fps_step_def Let_def)

lemma audio_cycle_body:
  "audio (cycle_body ps env s) =
     audio (fst (sound_alert (detection_count (confidence s) ps) env s))"
proof -
  let ?c = "detection_count (confidence s) ps"
  let ?s3 = "renderDetections (ctx_ok env) (detection_filter (confidence s) ps)
               (s\<lparr> stats := update_stats (stats s) ?c, history := history s @ [?c] \<rparr>)"
  have g: "alert_gate ?c env ?s3 = alert_gate ?c env s"
    by (simp add: alert_gate_def renderDetections_state)
  have a3: "audio ?s3 = audio s"
    by (simp add: renderDetections_state)
  have "audio (cycle_body ps env s) = audio (fst (sound_alert ?c env ?s3))"
    by (simp add: cycle_body_eq Let_def audio_fps_step)
  also have "\<dots> = audio (fst (sound_alert ?c env s))"
    by (simp only: audio_sound_alert g a3)
  finally show ?thesis .
qed

lemma audio_runDetection_env_at:
  assumes "model_loaded s" "isMonitoring s" "video_mounted s" "confidence s \<le> 1"
  shows "audio (runDetection (env_at t l n) s) =
           (if soundEnabled s \<and> threshold s \<le> n \<and> 2000 \<le> t - lastAlertTime (audio s)
            then (audio s)\<lparr> lastAlertTime := t, tones := tones (audio s) @ [t] \<rparr>
            else audio s)"
  using assms
  by (simp add: runDetection_def env_at_fields audio_cycle_body audio_sound_alert
      detection_count_persons alert_gate_def)




section \<open>Stopping and starting\<close>





lemma stats_runDetection_env_at:
  assumes "model_loaded s" "isMonitoring s" "video_mounted s" "confidence s \<le> 1"
  shows "stats (runDetection (env_at t l n) s) = update_stats (stats s) n"
  using assms
  by (simp add: runDetection_def env_at_fields stats_cycle_body detection_count_persons)

lemma frame_handleStop:
  "stats (handleStop rid tm s) = stats s" "audio (handleStop rid tm s) = audio s"
  "threshold (handleStop rid tm s) = threshold s"
  "soundEnabled (handleStop rid tm s) = soundEnabled s"
  "confidence (handleStop rid tm s) = confidence s"
  by (simp_all add: handleStop_def Let_def addLog_def)

lemma frame_handleStartWebcam:
  "stats (handleStartWebcam g rid tm s) = stats s" "audio (handleStartWebcam g rid tm s) = audio s"
  "threshold (handleStartWebcam g rid tm s) = threshold s"
  "soundEnabled (handleStartWebcam g rid tm s) = soundEnabled s"
  by (simp_all add: handleStartWebcam_def addLog_def)

lemma frame_handleUpload:
  "stats (handleUpload file s) = stats s" "audio (handleUpload file s) = audio s"
  "threshold (handleUpload file s) = threshold s"
  "soundEnabled (handleUpload file s) = soundEnabled s"
  by (simp_all add: handleUpload_def split: option.split prod.split)

lemma frame_fire_loadedmetadata:
  "currentCount (stats (fire_loadedmetadata now rid tm s)) = currentCount (stats s)"
  "peakCount (stats (fire_loadedmetadata now rid tm s)) = peakCount (stats s)"
  "totalDetections (stats (fire_loadedmetadata now rid tm s)) = totalDetections (stats s)"
  "audio (fire_loadedmetadata now rid tm s) = audio s"
  "threshold (fire_loadedmetadata now rid tm s) = threshold s"
  "soundEnabled (fire_loadedmetadata now rid tm s) = soundEnabled s"
  by (simp_all add: fire_loadedmetadata_def Let_def addLog_def split: option.split)

section \<open>Claims\<close>

text \<open>
  C1. Whatever sequence of frame counts goes through the stats updater of
  \<open>runDetection\<close>, after each update \<open>peakCount\<close> is the maximum of all counts seen so
  far (from the initial stats, whose peak is 0; from any other stats, the maximum of the
  earlier peak and the counts), it never decreases from one update to the next, and it is
  at least \<open>currentCount\<close>, which is the count just fed. A cycle whose detection
  resolves applies the updater once, to the number of filtered detections.
\<close>

theorem peak_is_running_maximum:
  "peakCount (feed_counts initial_stats (cs @ [c])) = Max (set (cs @ [c]))
   \<and> peakCount (feed_counts s cs) = Max (set (peakCount s # cs))
   \<and> peakCount (feed_counts s cs) \<le> peakCount (feed_counts s (cs @ [c]))
   \<and> currentCount (feed_counts s (cs @ [c])) = c
   \<and> currentCount (feed_counts s (cs @ [c])) \<le> peakCount (feed_counts s (cs @ [c]))
   \<and> stats (cycle_body predictions env st) =
         update_stats (stats st) (detection_count (confidence st) predictions)"
proof -
  have "peakCount (feed_counts initial_stats (cs @ [c])) = Max (set (0 # (cs @ [c])))"
    by (simp only: peak_feed_counts_Max) (simp add: initial_stats_def)
  also have "\<dots> = Max (set (cs @ [c]))"
    by (rule Max_with_zero) simp
  finally have a: "peakCount (feed_counts initial_stats (cs @ [c])) = Max (set (cs @ [c]))" .
  have b: "peakCount (feed_counts s cs) = Max (set (peakCount s # cs))"
    by (rule peak_feed_counts_Max)
  have c: "peakCount (feed_counts s cs) \<le> peakCount (feed_counts s (cs @ [c]))"
    by (simp add: feed_counts_snoc update_stats_def)
  have d: "currentCount (feed_counts s (cs @ [c])) = c"
    by (simp add: feed_counts_snoc update_stats_def)
  have e: "currentCount (feed_counts s (cs @ [c])) \<le> peakCount (feed_counts s (cs @ [c]))"
    by (simp add: feed_counts_snoc update_stats_def)
  from a b c d e stats_cycle_body [of predictions env st] show ?thesis by blast
qed

theorem peak_is_running_maximum_witness:
  "peakCount (feed_counts initial_stats ([2, 5, 3] @ [4])) = 5
   \<and> peakCount (feed_counts initial_stats [2, 5, 3]) = 5
   \<and> currentCount (feed_counts initial_stats ([2, 5, 3] @ [4])) = 4"
  using peak_is_running_maximum [of "[2, 5, 3]" 4 initial_stats]
  by (simp add: initial_stats_def)

text \<open>
  C2. After any sequence of stats updates \<open>totalDetections\<close> is the number of updates
  whose count was greater than 0 (added to the earlier total when the stats are not the
  initial ones): one update adds 1 when its count is positive, whatever the count, and 0
  when the count is 0.
\<close>

theorem total_counts_nonzero_updates:
  "totalDetections (feed_counts initial_stats cs) = length (filter (\<lambda>c. c > 0) cs)
   \<and> totalDetections (feed_counts s cs) = totalDetections s + length (filter (\<lambda>c. c > 0) cs)
   \<and> totalDetections (update_stats s c) = totalDetections s + (if c > 0 then 1 else 0)
   \<and> totalDetections (update_stats s (Suc n)) = totalDetections s + 1
   \<and> totalDetections (update_stats s 0) = totalDetections s"
proof -
  have "totalDetections (feed_counts initial_stats cs) = length (filter (\<lambda>c. c > 0) cs)"
    by (simp add: total_feed_counts initial_stats_def)
  moreover have "totalDetections (update_stats s c) = totalDetections s + (if c > 0 then 1 else 0)"
    by (simp add: update_stats_def)
  moreover have "totalDetections (update_stats s (Suc n)) = totalDetections s + 1"
    by (simp add: update_stats_def)
  moreover have "totalDetections (update_stats s 0) = totalDetections s"
    by (simp add: update_stats_def)
  ultimately show ?thesis
    using total_feed_counts [of s cs] by simp
qed

theorem total_counts_nonzero_updates_witness:
  "totalDetections (feed_counts initial_stats [0, 4, 5, 0, 17]) = 3"
  using total_counts_nonzero_updates [of "[0, 4, 5, 0, 17]" initial_stats 0 0]
  by simp







text \<open>
  C5. The trend buffer never holds more than 30 entries: one append leaves at most 30,
  and so does every sequence of events from the initial state. Fed from empty, it holds
  exactly the last 30 points appended (all of them while there are at most 30); after 31
  appends, and after 31 FPS samples taken one second apart, that is all but the oldest.
\<close>

theorem trend_buffer_bounded:
  "length (chart_append buf pt) \<le> 30
   \<and> length (chartData (handle_all (initial_state t0) evs)) \<le> 30
   \<and> length (chart_feed [] pts) \<le> 30
   \<and> chart_feed [] pts = drop (length pts - 30) pts
   \<and> (length pts = 31 \<longrightarrow> chart_feed [] pts = tl pts \<and> length (chart_feed [] pts) = 30)
   \<and> (length samples = 31 \<and> chartData s = [] \<and> lastFpsTime s + 1000 \<le> t \<longrightarrow>
        chartData (second_apart_samples s t samples) =
          tl (map (\<lambda>(label, n). \<lparr> pt_time = label, pt_count = n \<rparr>) samples))"
proof -
  have a: "length (chart_append buf pt) \<le> 30"
    by (simp add: chart_append_length)
  have b: "length (chartData (handle_all (initial_state t0) evs)) \<le> 30"
    by (rule chartData_handle_all) (simp add: initial_state_def)
  have c: "chart_feed [] pts = drop (length pts - 30) pts" for pts :: "TrendPoint list"
    by (simp add: chart_feed_last js_slice_last_def)
  have d: "length (chart_feed [] pts) \<le> 30"
    by (simp add: c)
  have e: "chart_feed [] pts = tl pts \<and> length (chart_feed [] pts) = 30"
    if "length pts = 31" for pts :: "TrendPoint list"
    using that by (simp add: c drop_Suc)
  have f: "chartData (second_apart_samples s t samples) =
          tl (map (\<lambda>(label, n). \<lparr> pt_time = label, pt_count = n \<rparr>) samples)"
    if "length samples = 31" "chartData s = []" "lastFpsTime s + 1000 \<le> t"
    using that e [of "map (\<lambda>(label, n). \<lparr> pt_time = label, pt_count = n \<rparr>) samples"]
    by (simp add: second_apart_samples_chart)
  from a b c [of pts] d e [of pts] f show ?thesis by blast
qed

theorem trend_buffer_bounded_witness:
  "chart_feed [] (map (\<lambda>n. \<lparr> pt_time = ''t'', pt_count = n \<rparr>) [0..<31]) =
     map (\<lambda>n. \<lparr> pt_time = ''t'', pt_count = n \<rparr>) [1..<31]
   \<and> length (chart_feed [] (map (\<lambda>n. \<lparr> pt_time = ''t'', pt_count = n \<rparr>) [0..<31])) = 30
   \<and> chartData (second_apart_samples (initial_state 0) 1000 (map (\<lambda>n. (''t'', n)) [0..<31])) =
       map (\<lambda>n. \<lparr> pt_time = ''t'', pt_count = n \<rparr>) [1..<31]"
proof -
  let ?mk = "\<lambda>n. \<lparr> pt_time = ''t'', pt_count = n \<rparr>"
  have len: "length (map ?mk [0..<31]) = 31" "length (map (\<lambda>n. (''t'', n)) [0..<31]) = 31"
    by simp_all
  have start: "chartData (initial_state 0) = []" "lastFpsTime (initial_state 0) + 1000 \<le> 1000"
    by (simp_all add: initial_state_def)
  have upt: "[0..<31] = 0 # [1..<31]"
    by (simp add: upt_conv_Cons)
  have tl1: "tl (map ?mk [0..<31]) = map ?mk [1..<31]"
    by (simp only: upt list.map list.sel)
  have tl2: "tl (map (\<lambda>(label, n). \<lparr> pt_time = label, pt_count = n \<rparr>)
                  (map (\<lambda>n. (''t'', n)) [0..<31])) = map ?mk [1..<31]"
    by (simp only: upt list.map list.sel) simp
  from len start tl1 tl2
    trend_buffer_bounded [of "[]" "?mk 0" 0 "[]" "map ?mk [0..<31]"
      "map (\<lambda>n. (''t'', n)) [0..<31]" "initial_state 0" 1000]
  show ?thesis by (simp add: drop_Suc)
qed

text \<open>
  C6. The log is newest first and capped at 100: \<open>addLog\<close> puts the new entry in front of
  the first 99 of the earlier ones, so the length is the smaller of 100 and one more than
  before; on a log of 100 entries the 101st drops the oldest (the last) and leaves the
  other 99 in their order behind the new one, the length staying 100. The log after any
  entries is the 100 newest, newest first, and no sequence of events makes it longer.
\<close>

theorem log_history_capped:
  "log_insert e prev = e # take 99 prev
   \<and> length (log_insert e prev) = min 100 (Suc (length prev))
   \<and> (length prev = 100 \<longrightarrow>
        log_insert e prev = e # butlast prev \<and> length (log_insert e prev) = 100)
   \<and> log_feed [] es = take 100 (rev es)
   \<and> logs (addLog rid tm msg ty s) =
        log_insert \<lparr> log_id = rid, log_time = tm, log_message = msg, log_type = ty \<rparr> (logs s)
   \<and> length (logs (handle_all (initial_state t0) evs)) \<le> 100"
proof -
  have a: "log_insert e prev = e # take 99 prev"
    by (simp add: log_insert_def take_Cons')
  have b: "length (log_insert e prev) = min 100 (Suc (length prev))"
    by (rule log_insert_length)
  have c: "log_insert e prev = e # butlast prev \<and> length (log_insert e prev) = 100"
    if "length prev = 100"
    using that by (simp add: a butlast_conv_take)
  have d: "log_feed [] es = take 100 (rev es)"
    by (rule log_feed_newest_first)
  have e: "logs (addLog rid tm msg ty s) =
        log_insert \<lparr> log_id = rid, log_time = tm, log_message = msg, log_type = ty \<rparr> (logs s)"
    by (simp add: addLog_def)
  have f: "length (logs (handle_all (initial_state t0) evs)) \<le> 100"
    by (rule logs_handle_all) (simp add: initial_state_def)
  from a b c d e f show ?thesis by blast
qed

theorem log_history_capped_witness:
  "log_insert \<lparr> log_id = ''new'', log_time = ''t'', log_message = ''m'', log_type = Info \<rparr>
     (map (\<lambda>n. \<lparr> log_id = ''old'', log_time = ''t'', log_message = replicate n CHR ''x'',
                  log_type = Info \<rparr>) [0..<100])
   = \<lparr> log_id = ''new'', log_time = ''t'', log_message = ''m'', log_type = Info \<rparr> #
     map (\<lambda>n. \<lparr> log_id = ''old'', log_time = ''t'', log_message = replicate n CHR ''x'',
                 log_type = Info \<rparr>) [0..<99]"
proof -
  let ?old = "\<lambda>n. \<lparr> log_id = ''old'', log_time = ''t'', log_message = replicate n CHR ''x'',
                       log_type = Info \<rparr>"
  have len: "length (map ?old [0..<100]) = 100"
    by simp
  have "[0..<100] = [0..<99] @ [99]"
    using upt_Suc_append [of 0 99] by simp
  then have bl: "butlast (map ?old [0..<100]) = map ?old [0..<99]"
    by (simp only: map_append list.map butlast_snoc)
  have "length (map ?old [0..<100]) = 100 \<longrightarrow>
        log_insert \<lparr> log_id = ''new'', log_time = ''t'', log_message = ''m'', log_type = Info \<rparr>
          (map ?old [0..<100]) =
        \<lparr> log_id = ''new'', log_time = ''t'', log_message = ''m'', log_type = Info \<rparr> #
          butlast (map ?old [0..<100])
        \<and> length (log_insert
              \<lparr> log_id = ''new'', log_time = ''t'', log_message = ''m'', log_type = Info \<rparr>
              (map ?old [0..<100])) = 100"
    using log_history_capped [of "\<lparr> log_id = ''new'', log_time = ''t'', log_message = ''m'', log_type = Info \<rparr>"
      "map ?old [0..<100]" "[]" "[]" "[]" "[]" Info "initial_state 0" 0 "[]"]
    by blast
  with len have "log_insert \<lparr> log_id = ''new'', log_time = ''t'', log_message = ''m'', log_type = Info \<rparr>
          (map ?old [0..<100]) =
        \<lparr> log_id = ''new'', log_time = ''t'', log_message = ''m'', log_type = Info \<rparr> #
          butlast (map ?old [0..<100])"
    by blast
  with bl show ?thesis by (simp only:)
qed

text \<open>
  C7. The detection filter is a function of the confidence cutoff and the predictions
  alone. It keeps, in their order, exactly the detections of class \<open>person\<close> (the label is
  fixed in the source) whose score is at least the cutoff, and the count is the length of
  what it keeps. On a person of score 0.4, a person of score 0.6 and a car of score 0.9,
  with cutoff 0.5, it keeps only the person of score 0.6, count 1; on no detections it
  keeps none, count 0.
\<close>

theorem detection_filter_exact:
  "detection_filter conf ps = filter (\<lambda>p. d_class p = ''person'' \<and> conf \<le> score p) ps
   \<and> set (detection_filter conf ps) = {p \<in> set ps. d_class p = ''person'' \<and> conf \<le> score p}
   \<and> detection_count conf ps = length (detection_filter conf ps)
   \<and> detection_filter (5 / 10)
        [\<lparr> bbox = b1, d_class = ''person'', score = 4 / 10 \<rparr>,
         \<lparr> bbox = b2, d_class = ''person'', score = 6 / 10 \<rparr>,
         \<lparr> bbox = b3, d_class = ''car'', score = 9 / 10 \<rparr>]
       = [\<lparr> bbox = b2, d_class = ''person'', score = 6 / 10 \<rparr>]
   \<and> detection_count (5 / 10)
        [\<lparr> bbox = b1, d_class = ''person'', score = 4 / 10 \<rparr>,
         \<lparr> bbox = b2, d_class = ''person'', score = 6 / 10 \<rparr>,
         \<lparr> bbox = b3, d_class = ''car'', score = 9 / 10 \<rparr>] = 1
   \<and> detection_filter conf [] = []
   \<and> detection_count conf [] = 0
   \<and> overlay (renderDetections True (detection_filter conf ps) (initial_state t0)) =
       detection_filter conf ps"
proof -
  have a: "detection_filter conf ps = filter (\<lambda>p. d_class p = ''person'' \<and> conf \<le> score p) ps"
    by (simp add: detection_filter_def)
  have b: "set (detection_filter conf ps) =
             {p \<in> set ps. d_class p = ''person'' \<and> conf \<le> score p}"
    by (simp add: a)
  have c: "detection_count conf ps = length (detection_filter conf ps)"
    by (simp add: detection_count_def)
  have d: "detection_filter (5 / 10)
        [\<lparr> bbox = b1, d_class = ''person'', score = 4 / 10 \<rparr>,
         \<lparr> bbox = b2, d_class = ''person'', score = 6 / 10 \<rparr>,
         \<lparr> bbox = b3, d_class = ''car'', score = 9 / 10 \<rparr>]
       = [\<lparr> bbox = b2, d_class = ''person'', score = 6 / 10 \<rparr>]"
    by (simp add: detection_filter_def)
  have e: "detection_count (5 / 10)
        [\<lparr> bbox = b1, d_class = ''person'', score = 4 / 10 \<rparr>,
         \<lparr> bbox = b2, d_class = ''person'', score = 6 / 10 \<rparr>,
         \<lparr> bbox = b3, d_class = ''car'', score = 9 / 10 \<rparr>] = 1"
    by (simp only: detection_count_def d) simp
  have f: "detection_filter conf [] = []" "detection_count conf [] = 0"
    by (simp_all add: detection_count_def detection_filter_def)
  have g: "overlay (renderDetections True (detection_filter conf ps) (initial_state t0)) =
       detection_filter conf ps"
    by (simp add: renderDetections_state initial_state_def)
  from a b c d e f g show ?thesis by blast
qed

theorem detection_filter_exact_witness:
  "detection_filter (1 / 2)
     [\<lparr> bbox = (0, 0, 10, 10), d_class = ''person'', score = 4 / 10 \<rparr>,
      \<lparr> bbox = (5, 5, 20, 40), d_class = ''person'', score = 6 / 10 \<rparr>,
      \<lparr> bbox = (1, 2, 3, 4), d_class = ''car'', score = 9 / 10 \<rparr>]
   = [\<lparr> bbox = (5, 5, 20, 40), d_class = ''person'', score = 6 / 10 \<rparr>]
   \<and> detection_count (1 / 2)
     [\<lparr> bbox = (0, 0, 10, 10), d_class = ''person'', score = 4 / 10 \<rparr>,
      \<lparr> bbox = (5, 5, 20, 40), d_class = ''person'', score = 6 / 10 \<rparr>,
      \<lparr> bbox = (1, 2, 3, 4), d_class = ''car'', score = 9 / 10 \<rparr>] = 1"
  using detection_filter_exact [of "1 / 2" "[]" "(0, 0, 10, 10)" "(5, 5, 20, 40)" "(1, 2, 3, 4)" 0]
  by simp



text \<open>
  C9. \<open>handleStop\<close> leaves the stats (current, peak and total counts, and the start time
  too) and the audio module with its \<open>lastAlertTime\<close> as they are. A start after it, by
  webcam or by upload, changes \<open>sessionStartTime\<close> only, so the new session goes on from the
  earlier peak and total, and its alerts pass the cooldown gate exactly when they would
  have passed it without the stop and start.
\<close>

theorem stop_keeps_stats_and_cooldown:
  "stats (handleStop rid tm s) = stats s
   \<and> audio (handleStop rid tm s) = audio s
   \<and> currentCount (stats (handle_all s
         [Stop rid tm, StartWebcam g r1 t1, LoadedMetadata now r2 t2])) = currentCount (stats s)
   \<and> peakCount (stats (handle_all s
         [Stop rid tm, StartWebcam g r1 t1, LoadedMetadata now r2 t2])) = peakCount (stats s)
   \<and> totalDetections (stats (handle_all s
         [Stop rid tm, StartWebcam g r1 t1, LoadedMetadata now r2 t2])) = totalDetections (stats s)
   \<and> peakCount (stats (handle_all s
         [Stop rid tm, Upload file, LoadedMetadata now r2 t2])) = peakCount (stats s)
   \<and> totalDetections (stats (handle_all s
         [Stop rid tm, Upload file, LoadedMetadata now r2 t2])) = totalDetections (stats s)
   \<and> lastAlertTime (audio (handle_all s
         [Stop rid tm, StartWebcam g r1 t1, LoadedMetadata now r2 t2])) = lastAlertTime (audio s)
   \<and> lastAlertTime (audio (handle_all s
         [Stop rid tm, Upload file, LoadedMetadata now r2 t2])) = lastAlertTime (audio s)
   \<and> alert_gate count env (handle_all s
         [Stop rid tm, StartWebcam g r1 t1, LoadedMetadata now r2 t2]) = alert_gate count env s"
  by (simp add: handle_all_def frame_handleStop frame_handleStartWebcam frame_handleUpload
      frame_fire_loadedmetadata alert_gate_def)

theorem stop_keeps_stats_and_cooldown_witness:
  "peakCount (stats (handle_all (runDetection (env_at 5100 [] 5) (monitoring_from 5000))
      [Stop ''d'' ''t3'', StartWebcam True ''e'' ''t4'', LoadedMetadata 5600 ''f'' ''t5''])) = 5
   \<and> totalDetections (stats (handle_all (runDetection (env_at 5100 [] 5) (monitoring_from 5000))
      [Stop ''d'' ''t3'', StartWebcam True ''e'' ''t4'', LoadedMetadata 5600 ''f'' ''t5''])) = 1
   \<and> lastAlertTime (audio (handle_all (runDetection (env_at 5100 [] 5) (monitoring_from 5000))
      [Stop ''d'' ''t3'', StartWebcam True ''e'' ''t4'', LoadedMetadata 5600 ''f'' ''t5''])) = 5100
   \<and> \<not> alert_gate 5 (env_at 5700 [] 5)
        (handle_all (runDetection (env_at 5100 [] 5) (monitoring_from 5000))
          [Stop ''d'' ''t3'', StartWebcam True ''e'' ''t4'', LoadedMetadata 5600 ''f'' ''t5''])"
proof -
  let ?s = "runDetection (env_at 5100 [] 5) (monitoring_from 5000)"
  have st: "stats ?s = update_stats (stats (monitoring_from 5000)) 5"
    by (rule stats_runDetection_env_at) (simp_all add: monitoring_from_flags monitoring_from_fields)
  have au: "audio ?s = \<lparr> lastAlertTime = 5100, tones = [5100] \<rparr>"
    by (simp add: audio_runDetection_env_at monitoring_from_flags monitoring_from_fields
        initial_audio_def)
  have vals: "peakCount (stats ?s) = 5" "totalDetections (stats ?s) = 1"
    "lastAlertTime (audio ?s) = 5100" "\<not> alert_gate 5 (env_at 5700 [] 5) ?s"
    by (simp_all add: st au monitoring_from_fields initial_stats_def update_stats_def
        alert_gate_def env_at_fields)
  from stop_keeps_stats_and_cooldown [of "''d''" "''t3''" ?s True "''e''" "''t4''" 5600 "''f''" "''t5''"
      None 5 "env_at 5700 [] 5"]
  show ?thesis
    by (simp only: vals) simp
qed

text \<open>
  C10. \<open>avgCount\<close> is 0 in the initial stats and no handler writes it: the stats updater of
  the detection cycle, the start of a session, the stop, the screenshot, the recording, the
  timer and the settings all leave it as it is. It is therefore 0 after every sequence of
  events from the initial state, whether or not the buttons' \<open>disabled\<close> gates are applied.
\<close>

theorem avgCount_stays_zero:
  "avgCount initial_stats = 0
   \<and> avgCount (stats (initial_state t0)) = 0
   \<and> avgCount (update_stats st c) = avgCount st
   \<and> avgCount (stats (handle s ev)) = avgCount (stats s)
   \<and> avgCount (stats (handle_all (initial_state t0) evs)) = 0
   \<and> avgCount (stats (ui_run (initial_state t0) evs)) = 0"
proof -
  have z: "avgCount (stats (initial_state t0)) = 0" "avgCount initial_stats = 0"
    by (simp_all add: initial_state_def initial_stats_def)
  have "avgCount (stats (handle_all (initial_state t0) evs)) = 0"
    by (simp only: avgCount_handle_all z)
  moreover have "avgCount (stats (ui_run (initial_state t0) evs)) = 0"
    by (simp only: avgCount_ui_run z)
  ultimately show ?thesis
    using z avgCount_update_stats [of st c] avgCount_handle [of s ev] by blast
qed

theorem avgCount_stays_zero_witness:
  "avgCount (stats (handle_all (initial_state 0)
     [ModelLoad True ''a'' ''t0'', StartWebcam True ''b'' ''t1'', LoadedMetadata 5000 ''c'' ''t2'',
      Cycle (env_at 6000 ''l'' 4), TakeScreenshot True ''u'' ''d'' ''t3'' ''e'' ''t4'',
      ToggleRecording True ''f'' ''t5'', TimerTick 7000, Stop ''g'' ''t6''])) = 0
   \<and> peakCount (stats (handle_all (initial_state 0)
     [ModelLoad True ''a'' ''t0'', StartWebcam True ''b'' ''t1'', LoadedMetadata 5000 ''c'' ''t2'',
      Cycle (env_at 6000 ''l'' 4), TakeScreenshot True ''u'' ''d'' ''t3'' ''e'' ''t4'',
      ToggleRecording True ''f'' ''t5'', TimerTick 7000, Stop ''g'' ''t6''])) = 4"
proof -
  have "detection_count (1 / 2) (persons 4) = 4"
    by (simp add: detection_count_def detection_filter_def persons_def)
  then have "peakCount (stats (handle_all (initial_state 0)
     [ModelLoad True ''a'' ''t0'', StartWebcam True ''b'' ''t1'', LoadedMetadata 5000 ''c'' ''t2'',
      Cycle (env_at 6000 ''l'' 4), TakeScreenshot True ''u'' ''d'' ''t3'' ''e'' ''t4'',
      ToggleRecording True ''f'' ''t5'', TimerTick 7000, Stop ''g'' ''t6''])) = 4"
    by (simp add: handle_all_def handler_defs runDetection_def stats_cycle_body env_at_def
        initial_state_def initial_stats_def update_stats_def Let_def loaded_message_def)
  then show ?thesis
    using avgCount_stays_zero [of 0 initial_stats 0 "initial_state 0" ToggleSound
       "[ModelLoad True ''a'' ''t0'', StartWebcam True ''b'' ''t1'', LoadedMetadata 5000 ''c'' ''t2'',
      Cycle (env_at 6000 ''l'' 4), TakeScreenshot True ''u'' ''d'' ''t3'' ''e'' ''t4'',
      ToggleRecording True ''f'' ''t5'', TimerTick 7000, Stop ''g'' ''t6'']"]
    by simp
qed

end
